theory Spec2Isabelle
  imports Main "HOL-Library.AList"
begin

section \<open>The molecule container of scrubber/common.py\<close>

text \<open>
  \<^verbatim>\<open>UniqueMoleculeContainer\<close> keeps RDKit molecules in a Python dictionary keyed by
  their canonical SMILES. The canonicaliser \<^verbatim>\<open>mol2smi(mol, chirality)\<close> calls into
  RDKit; it is a parameter \<open>mol2smi\<close> of every operation that uses it, and the type of
  molecules is a type variable.
\<close>

subsection \<open>Python values the container works with\<close>

text \<open>
  A Python \<^verbatim>\<open>dict\<close> keeps insertion order: it is an association list with distinct
  keys. \<^verbatim>\<open>d[k] = v\<close> overwrites in place when the key is there and appends otherwise
  (\<^const>\<open>AList.update\<close>), \<^verbatim>\<open>del d[k]\<close> drops the entry (\<^const>\<open>AList.delete\<close>) and
  raises \<^verbatim>\<open>KeyError\<close> when there is none.
\<close>

type_synonym 'm pydict = "(string \<times> 'm) list"

datatype error =
    KeyError
  | IndexError string
  | TypeError
  | AttributeError
  | StopIteration

text \<open>The argument of \<^verbatim>\<open>__getitem__\<close>: a string, an integer or anything else.\<close>

datatype pykey = KStr string | KInt int | KOther

definition dict_in :: "string \<Rightarrow> 'm pydict \<Rightarrow> bool" where
  "dict_in k d = (k \<in> set (map fst d))"

text \<open>\<^verbatim>\<open>d[k]\<close> read.\<close>

definition dict_getitem :: "'m pydict \<Rightarrow> string \<Rightarrow> error + 'm" where
  "dict_getitem d k = (case map_of d k of None \<Rightarrow> Inl KeyError | Some v \<Rightarrow> Inr v)"

text \<open>
  An index is first converted to the interpreter's index type \<^verbatim>\<open>Py_ssize_t\<close>, 64 bits
  wide; an integer that does not fit raises \<^verbatim>\<open>IndexError\<close> with a message of its
  own.
\<close>

definition fits_ssize_t :: "int \<Rightarrow> bool" where
  "fits_ssize_t i = (- (2 ^ 63) \<le> i \<and> i < 2 ^ 63)"

text \<open>
  \<^verbatim>\<open>xs[i]\<close> on a list: an index in \<open>[-n, n)\<close> is accepted, a negative one counting from
  the end; any other raises \<^verbatim>\<open>IndexError\<close>, with the message of the range check or
  with that of the conversion. The length of a list fits \<^verbatim>\<open>Py_ssize_t\<close>, hence so does
  every index in \<open>[-n, n)\<close>, and the range is tested first here.
\<close>

definition list_getitem :: "'a list \<Rightarrow> int \<Rightarrow> error + 'a" where
  "list_getitem xs i =
     (if 0 \<le> i \<and> i < int (length xs) then Inr (xs ! nat i)
      else if i < 0 \<and> - int (length xs) \<le> i then Inr (xs ! nat (int (length xs) + i))
      else if fits_ssize_t i then Inl (IndexError ''list index out of range'')
      else Inl (IndexError ''cannot fit 'int' into an index-sized integer''))"

text \<open>The position that an accepted index \<open>i\<close> denotes in a list of length \<open>n\<close>.\<close>

definition position :: "nat \<Rightarrow> int \<Rightarrow> nat" where
  "position n i = nat (if i < 0 then int n + i else i)"

subsection \<open>The container object\<close>

text \<open>
  The attributes of an instance: \<^verbatim>\<open>__data\<close>, \<^verbatim>\<open>sealed\<close>, \<^verbatim>\<open>__chirality\<close> and the
  iteration counter \<^verbatim>\<open>__index\<close>, which does not exist until \<^verbatim>\<open>__iter__\<close> has run.
  Every assignment to \<^verbatim>\<open>__data\<close> in the class stores a fresh dictionary (\<^verbatim>\<open>{}\<close> or
  \<^verbatim>\<open>.copy()\<close>), so the dictionary is held by value.
\<close>

record 'm container =
  data :: "'m pydict"
  sealed :: bool
  chirality :: bool
  index :: "int option"

text \<open>\<^verbatim>\<open>__getitem__\<close>\<close>

definition dunder_getitem :: "pykey \<Rightarrow> 'm container \<Rightarrow> error + 'm" where
  "dunder_getitem key self =
     (case key of
        KStr s \<Rightarrow> dict_getitem (data self) s
      | KInt i \<Rightarrow>
          (case list_getitem (map fst (data self)) i of
             Inl e \<Rightarrow> Inl e
           | Inr k \<Rightarrow> dict_getitem (data self) k)
      | KOther \<Rightarrow> Inl TypeError)"

text \<open>
  \<^verbatim>\<open>get(key, default)\<close>. The body is
  \<^verbatim>\<open>try: self.__getitem__(key)  except: return default\<close>:
  the value looked up is dropped, and a call that does not raise runs off the end of the
  function, which returns \<^verbatim>\<open>None\<close>. A Python value that may be \<^verbatim>\<open>None\<close> is an
  \<open>option\<close>.
\<close>

definition get :: "pykey \<Rightarrow> 'm option \<Rightarrow> 'm container \<Rightarrow> 'm option" where
  "get key dflt self =
     (case dunder_getitem key self of
        Inr _ \<Rightarrow> None
      | Inl _ \<Rightarrow> dflt)"

text \<open>\<^verbatim>\<open>del d[k]\<close>\<close>

definition dict_delitem :: "'m pydict \<Rightarrow> string \<Rightarrow> error + 'm pydict" where
  "dict_delitem d k = (if dict_in k d then Inr (AList.delete k d) else Inl KeyError)"

subsection \<open>Construction\<close>

text \<open>
  \<^verbatim>\<open>add(mol, replace=False)\<close>. A method that mutates \<^verbatim>\<open>self\<close> returns its result
  together with the object as it is left.
\<close>

definition add ::
  "('m \<Rightarrow> bool \<Rightarrow> string) \<Rightarrow> 'm \<Rightarrow> bool \<Rightarrow> 'm container \<Rightarrow> bool \<times> 'm container" where
  "add mol2smi mol replace self =
     (let key = mol2smi mol (chirality self)
      in if dict_in key (data self) \<and> \<not> replace then (False, self)
         else (True, self\<lparr>data := AList.update key mol (data self), sealed := False\<rparr>))"

text \<open>The constructor's argument: nothing, a container, a list or tuple, anything else.\<close>

datatype 'm argument =
    ArgNone
  | ArgContainer "'m container"
  | ArgList "'m list"
  | ArgOther

text \<open>\<^verbatim>\<open>for m in argument: self.add(m); self.sealed = False\<close>\<close>

fun init_loop ::
  "('m \<Rightarrow> bool \<Rightarrow> string) \<Rightarrow> 'm list \<Rightarrow> 'm container \<Rightarrow> 'm container" where
  "init_loop mol2smi [] self = self"
| "init_loop mol2smi (m # rest) self =
     init_loop mol2smi rest ((snd (add mol2smi m False self))\<lparr>sealed := False\<rparr>)"

text \<open>
  \<^verbatim>\<open>__init__(argument=None, sealed=True, ignore_chirality=False)\<close>. The three
  attributes are set from the parameters first; a container argument then replaces
  \<^verbatim>\<open>__data\<close> by a copy of the argument's dictionary and reads nothing else of it.
\<close>

definition dunder_init ::
  "('m \<Rightarrow> bool \<Rightarrow> string) \<Rightarrow> 'm argument \<Rightarrow> bool \<Rightarrow> bool \<Rightarrow> error + 'm container" where
  "dunder_init mol2smi arg sld ignore_chirality =
     (let self = \<lparr>data = [], sealed = sld, chirality = \<not> ignore_chirality, index = None\<rparr>
      in case arg of
           ArgNone \<Rightarrow> Inr self
         | ArgContainer other \<Rightarrow> Inr (self\<lparr>data := data other\<rparr>)
         | ArgList ms \<Rightarrow> Inr (init_loop mol2smi ms self)
         | ArgOther \<Rightarrow> Inl TypeError)"

text \<open>
  \<^verbatim>\<open>UniqueMoleculeContainer(other)\<close> with the defaults of the other two parameters, as
  \<^verbatim>\<open>copy\<close> and \<^verbatim>\<open>__add__\<close> call it.
\<close>

definition from_container :: "'m container \<Rightarrow> 'm container" where
  "from_container other =
     \<lparr>data = [], sealed = True, chirality = \<not> False, index = None\<rparr>\<lparr>data := data other\<rparr>"

definition copy :: "'m container \<Rightarrow> 'm container" where
  "copy self = from_container self"

subsection \<open>Removal\<close>

text \<open>\<^verbatim>\<open>remove_smiles\<close>: the bare \<^verbatim>\<open>except\<close> turns the \<^verbatim>\<open>KeyError\<close> into \<^verbatim>\<open>False\<close>.\<close>

definition remove_smiles :: "string \<Rightarrow> 'm container \<Rightarrow> bool \<times> 'm container" where
  "remove_smiles smiles self =
     (case dict_delitem (data self) smiles of
        Inr d \<Rightarrow> (True, self\<lparr>data := d, sealed := False\<rparr>)
      | Inl _ \<Rightarrow> (False, self))"

definition remove_mol ::
  "('m \<Rightarrow> bool \<Rightarrow> string) \<Rightarrow> 'm \<Rightarrow> 'm container \<Rightarrow> bool \<times> 'm container" where
  "remove_mol mol2smi mol self = remove_smiles (mol2smi mol (chirality self)) self"

text \<open>
  The loop of \<^verbatim>\<open>remove_mols\<close>:
  \<^verbatim>\<open>for mol in mol_list: if not self.remove_mol(mol): success = False\<close>
\<close>

fun remove_mols_loop ::
  "('m \<Rightarrow> bool \<Rightarrow> string) \<Rightarrow> 'm list \<Rightarrow> bool \<Rightarrow> 'm container \<Rightarrow> bool \<times> 'm container" where
  "remove_mols_loop mol2smi [] success self = (success, self)"
| "remove_mols_loop mol2smi (mol # rest) success self =
     (case remove_mol mol2smi mol self of
        (removed, self') \<Rightarrow>
          remove_mols_loop mol2smi rest (if \<not> removed then False else success) self')"

text \<open>\<^verbatim>\<open>remove_mols\<close>: \<^verbatim>\<open>success\<close> starts as \<^verbatim>\<open>False\<close>.\<close>

definition remove_mols ::
  "('m \<Rightarrow> bool \<Rightarrow> string) \<Rightarrow> 'm list \<Rightarrow> 'm container \<Rightarrow> bool \<times> 'm container" where
  "remove_mols mol2smi mol_list self =
     (if mol_list = [] then (True, self)
      else remove_mols_loop mol2smi mol_list False self)"

text \<open>
  The comprehension \<^verbatim>\<open>[keys_list[i] for i in indices_list]\<close>: the first index that
  is out of range raises, and no list is built.
\<close>

fun keys_at :: "string list \<Rightarrow> int list \<Rightarrow> error + string list" where
  "keys_at keys_list [] = Inr []"
| "keys_at keys_list (i # rest) =
     (case list_getitem keys_list i of
        Inl e \<Rightarrow> Inl e
      | Inr k \<Rightarrow>
          (case keys_at keys_list rest of
             Inl e \<Rightarrow> Inl e
           | Inr ks \<Rightarrow> Inr (k # ks)))"

text \<open>\<^verbatim>\<open>for smi in smi_list: self.remove_smiles(smi)\<close>\<close>

fun remove_each :: "string list \<Rightarrow> 'm container \<Rightarrow> 'm container" where
  "remove_each [] self = self"
| "remove_each (smi # rest) self = remove_each rest (snd (remove_smiles smi self))"

definition remove_from_indices ::
  "int list \<Rightarrow> 'm container \<Rightarrow> (error + string list) \<times> 'm container" where
  "remove_from_indices indices_list self =
     (let keys_list = map fst (data self)
      in case keys_at keys_list indices_list of
           Inl e \<Rightarrow> (Inl e, self)
         | Inr smi_list \<Rightarrow> (Inr smi_list, remove_each smi_list self))"

subsection \<open>\<^verbatim>\<open>pop\<close> and its message\<close>

text \<open>\<^verbatim>\<open>"%d" % n\<close>: the decimal digits, with a minus sign for a negative number.\<close>

definition digit :: "nat \<Rightarrow> char" where
  "digit n = ''0123456789'' ! n"

fun decimal :: "nat \<Rightarrow> string" where
  "decimal n = (if n < 10 then [digit n] else decimal (n div 10) @ [digit (n mod 10)])"

declare decimal.simps [simp del]

definition percent_d :: "int \<Rightarrow> string" where
  "percent_d i = (if i < 0 then CHR ''-'' # decimal (nat (- i)) else decimal (nat i))"

definition pop_message :: "nat \<Rightarrow> int \<Rightarrow> string" where
  "pop_message sz idx =
     (if sz = 0 then ''Empty container.''
      else ''Valid index must be between 0 and '' @ percent_d (int sz)
           @ '', but '' @ percent_d idx @ '' was used.'')"

text \<open>
  \<^verbatim>\<open>pop(index=0)\<close>: only an \<^verbatim>\<open>IndexError\<close> is caught and raised again with the
  message; \<^verbatim>\<open>sealed\<close> is not assigned.
\<close>

definition pop :: "int \<Rightarrow> 'm container \<Rightarrow> (error + 'm) \<times> 'm container" where
  "pop idx self =
     (case list_getitem (map fst (data self)) idx of
        Inl (IndexError _) \<Rightarrow> (Inl (IndexError (pop_message (length (data self)) idx)), self)
      | Inl e \<Rightarrow> (Inl e, self)
      | Inr key \<Rightarrow>
          (case dict_getitem (data self) key of
             Inl e \<Rightarrow> (Inl e, self)
           | Inr mol \<Rightarrow>
               (case dict_delitem (data self) key of
                  Inl e \<Rightarrow> (Inl e, self)
                | Inr d \<Rightarrow> (Inr mol, self\<lparr>data := d\<rparr>))))"

subsection \<open>Reading\<close>

definition keys :: "'m container \<Rightarrow> string list" where
  "keys self = map fst (data self)"

definition dunder_len :: "'m container \<Rightarrow> nat" where
  "dunder_len self = length (keys self)"

definition clear :: "'m container \<Rightarrow> 'm container" where
  "clear self = self\<lparr>sealed := (length (data self) = 0), data := []\<rparr>"

definition dunder_contains ::
  "('m \<Rightarrow> bool \<Rightarrow> string) \<Rightarrow> 'm \<Rightarrow> 'm container \<Rightarrow> bool" where
  "dunder_contains mol2smi mol self = dict_in (mol2smi mol (chirality self)) (data self)"

text \<open>\<^verbatim>\<open>__eq__\<close>: \<^verbatim>\<open>set(self.__data.keys()) == set(other.__data.keys())\<close>\<close>

definition dunder_eq :: "'m container \<Rightarrow> 'm container \<Rightarrow> bool" where
  "dunder_eq self other = (set (map fst (data self)) = set (map fst (data other)))"

subsection \<open>Iteration\<close>

text \<open>
  \<^verbatim>\<open>__iter__\<close> sets \<^verbatim>\<open>self.__index = -1\<close> and returns \<^verbatim>\<open>self\<close>; the state below is
  the object that is both updated and returned.
\<close>

definition dunder_iter :: "'m container \<Rightarrow> 'm container" where
  "dunder_iter self = self\<lparr>index := Some (- 1)\<rparr>"

text \<open>
  \<^verbatim>\<open>__next__\<close>: \<^verbatim>\<open>self.__index += 1\<close> raises \<^verbatim>\<open>AttributeError\<close> on an object
  that was never asked for an iterator.
\<close>

definition dunder_next :: "'m container \<Rightarrow> (error + 'm) \<times> 'm container" where
  "dunder_next self =
     (case index self of
        None \<Rightarrow> (Inl AttributeError, self)
      | Some i \<Rightarrow>
          (let self' = self\<lparr>index := Some (i + 1)\<rparr>
           in if i + 1 > int (length (data self')) - 1 then (Inl StopIteration, self')
              else (case list_getitem (map fst (data self')) (i + 1) of
                      Inl e \<Rightarrow> (Inl e, self')
                    | Inr key \<Rightarrow>
                        (case dict_getitem (data self') key of
                           Inl e \<Rightarrow> (Inl e, self')
                         | Inr mol \<Rightarrow> (Inr mol, self')))))"

subsection \<open>Union\<close>

text \<open>
  The loop of \<^verbatim>\<open>__add__\<close> over \<^verbatim>\<open>other.__data.items()\<close>:
  \<^verbatim>\<open>if not k in new.__data: self.sealed = False; new.__data[k] = v\<close>.
  It writes to two objects, \<^verbatim>\<open>new\<close> and \<^verbatim>\<open>self\<close>, and both are returned.
\<close>

fun add_loop ::
  "(string \<times> 'm) list \<Rightarrow> 'm container \<Rightarrow> 'm container \<Rightarrow> 'm container \<times> 'm container" where
  "add_loop [] new self = (new, self)"
| "add_loop ((k, v) # items) new self =
     (if \<not> dict_in k (data new)
      then add_loop items (new\<lparr>data := AList.update k v (data new)\<rparr>) (self\<lparr>sealed := False\<rparr>)
      else add_loop items new self)"

text \<open>
  \<^verbatim>\<open>__add__(self, other)\<close>: the result is the pair of the new container and of
  \<^verbatim>\<open>self\<close> as the call leaves it. \<^verbatim>\<open>other\<close> is only read.
\<close>

definition dunder_add :: "'m container \<Rightarrow> 'm container \<Rightarrow> 'm container \<times> 'm container" where
  "dunder_add self other = add_loop (data other) (from_container self) self"

definition dunder_radd :: "'m container \<Rightarrow> 'm container \<Rightarrow> 'm container \<times> 'm container" where
  "dunder_radd self other = dunder_add self other"

subsection \<open>Objects and references\<close>

text \<open>
  Containers are objects: two names may refer to one instance. A heap is the list of
  the instances created so far and a reference is a position in it. A method called
  through a reference replaces the instance there by its state after the call.
\<close>

type_synonym 'm heap = "'m container list"

definition call :: "nat \<Rightarrow> ('m container \<Rightarrow> 'a \<times> 'm container) \<Rightarrow> 'm heap \<Rightarrow> 'a \<times> 'm heap" where
  "call r method h = (case method (h ! r) of (res, self') \<Rightarrow> (res, h[r := self']))"

text \<open>\<^verbatim>\<open>iter(r)\<close>: the reference returned is \<^verbatim>\<open>r\<close> itself.\<close>

definition heap_iter :: "nat \<Rightarrow> 'm heap \<Rightarrow> nat \<times> 'm heap" where
  "heap_iter r h = (r, h[r := dunder_iter (h ! r)])"

subsection \<open>Sequences of calls\<close>

text \<open>
  A caller's calls on one container, the value each gives back, and what counts as a
  successful \<^verbatim>\<open>add\<close> or removal: \<^verbatim>\<open>True\<close> returned by \<^verbatim>\<open>add\<close>,
  \<^verbatim>\<open>remove_smiles\<close> or \<^verbatim>\<open>remove_mol\<close>, a molecule returned by \<^verbatim>\<open>pop\<close>.
\<close>

datatype 'm method_call =
    CallGet pykey "'m option"
  | CallContains 'm
  | CallRemoveSmiles string
  | CallRemoveMol 'm
  | CallPop int
  | CallAdd 'm bool

datatype 'm outcome =
    Returned_bool bool
  | Returned_value "'m option"
  | Raised error

fun perform ::
  "('m \<Rightarrow> bool \<Rightarrow> string) \<Rightarrow> 'm method_call \<Rightarrow> 'm container \<Rightarrow> 'm outcome \<times> 'm container" where
  "perform mol2smi (CallGet key dflt) self = (Returned_value (get key dflt self), self)"
| "perform mol2smi (CallContains mol) self =
     (Returned_bool (dunder_contains mol2smi mol self), self)"
| "perform mol2smi (CallRemoveSmiles smiles) self =
     (case remove_smiles smiles self of (b, self') \<Rightarrow> (Returned_bool b, self'))"
| "perform mol2smi (CallRemoveMol mol) self =
     (case remove_mol mol2smi mol self of (b, self') \<Rightarrow> (Returned_bool b, self'))"
| "perform mol2smi (CallPop idx) self =
     (case pop idx self of
        (Inr mol, self') \<Rightarrow> (Returned_value (Some mol), self')
      | (Inl e, self') \<Rightarrow> (Raised e, self'))"
| "perform mol2smi (CallAdd mol replace) self =
     (case add mol2smi mol replace self of (b, self') \<Rightarrow> (Returned_bool b, self'))"

fun succeeded :: "'m method_call \<Rightarrow> 'm outcome \<Rightarrow> bool" where
  "succeeded (CallGet key dflt) res = False"
| "succeeded (CallContains mol) res = False"
| "succeeded (CallPop idx) res = (case res of Returned_value v \<Rightarrow> True | _ \<Rightarrow> False)"
| "succeeded c res = (res = Returned_bool True)"

fun is_add :: "'m method_call \<Rightarrow> bool" where
  "is_add (CallAdd mol replace) = True"
| "is_add c = False"

text \<open>The calls in order: whether any of them succeeded, and the container at the end.\<close>

fun run ::
  "('m \<Rightarrow> bool \<Rightarrow> string) \<Rightarrow> 'm method_call list \<Rightarrow> 'm container \<Rightarrow> bool \<times> 'm container" where
  "run mol2smi [] self = (False, self)"
| "run mol2smi (c # rest) self =
     (case perform mol2smi c self of
        (res, self') \<Rightarrow>
          (case run mol2smi rest self' of
             (later, self'') \<Rightarrow> (succeeded c res \<or> later, self'')))"

section \<open>Properties\<close>

text \<open>
  C1. \<^verbatim>\<open>get(key, default)\<close> is to return the stored molecule for a key that is present.
  On a container holding ethanol under \<^verbatim>\<open>CCO\<close> the call \<^verbatim>\<open>get("CCO", default)\<close> returns
  \<^verbatim>\<open>None\<close>: neither the stored molecule nor the default.
\<close>

theorem get_present_key_returns_None:
  "get (KStr ''CCO'') (Some ''fallback'')
     \<lparr>data = [(''CCO'', ''ethanol'')], sealed = True, chirality = True, index = None\<rparr>
   = None
   \<and> dunder_getitem (KStr ''CCO'')
     \<lparr>data = [(''CCO'', ''ethanol'')], sealed = True, chirality = True, index = None\<rparr>
   = Inr ''ethanol''"
  by (simp add: get_def dunder_getitem_def dict_getitem_def)

text \<open>In general: the default for a key that is absent, \<^verbatim>\<open>None\<close> for one that is present.\<close>

lemma get_absent_key: "\<not> dict_in k (data c) \<Longrightarrow> get (KStr k) dflt c = dflt"
  by (simp add: get_def dunder_getitem_def dict_getitem_def dict_in_def
      map_of_eq_None_iff [THEN iffD2])

lemma get_present_key: "dict_in k (data c) \<Longrightarrow> get (KStr k) dflt c = None"
  by (cases "map_of (data c) k")
    (auto simp add: get_def dunder_getitem_def dict_getitem_def dict_in_def map_of_eq_None_iff)

text \<open>
  C2. \<^verbatim>\<open>remove_mols\<close> is to return \<^verbatim>\<open>True\<close> when every record of the list was
  present. On a container holding one molecule, removing the list of that molecule
  does remove it (the container is empty and unsealed after the call) and returns
  \<^verbatim>\<open>False\<close>.
\<close>

theorem remove_mols_present_returns_False:
  "remove_mols (\<lambda>mol chir. mol) [''CCO'']
     \<lparr>data = [(''CCO'', ''CCO'')], sealed = True, chirality = True, index = None\<rparr>
   = (False, \<lparr>data = [], sealed = False, chirality = True, index = None\<rparr>)"
  by (simp add: remove_mols_def remove_mol_def remove_smiles_def dict_delitem_def dict_in_def)

text \<open>The loop never sets \<^verbatim>\<open>success\<close> to \<^verbatim>\<open>True\<close>: a list that is not empty gives \<^verbatim>\<open>False\<close>.\<close>

lemma remove_mols_loop_False:
  "fst (remove_mols_loop mol2smi mol_list False self) = False"
  by (induction mol_list arbitrary: self) (auto split: prod.splits)

lemma remove_mols_nonempty_False:
  "fst (remove_mols mol2smi (mol # rest) self) = False"
  unfolding remove_mols_def using remove_mols_loop_False [of mol2smi "mol # rest" self] by simp

text \<open>
  C3. \<^verbatim>\<open>A + B\<close> is to leave both operands as they were, seals included. With \<^verbatim>\<open>A\<close>
  sealed and holding ethanol and \<^verbatim>\<open>B\<close> holding methanol, the call returns the union
  as a new container (itself sealed) and leaves \<^verbatim>\<open>A\<close> with \<^verbatim>\<open>sealed = False\<close>.
\<close>

theorem dunder_add_unseals_left_operand:
  "dunder_add
     \<lparr>data = [(''CCO'', ''ethanol'')], sealed = True, chirality = True, index = None\<rparr>
     \<lparr>data = [(''CO'', ''methanol'')], sealed = True, chirality = True, index = None\<rparr>
   = (\<lparr>data = [(''CCO'', ''ethanol''), (''CO'', ''methanol'')], sealed = True,
         chirality = True, index = None\<rparr>,
      \<lparr>data = [(''CCO'', ''ethanol'')], sealed = False, chirality = True, index = None\<rparr>)"
  by (simp add: dunder_add_def from_container_def dict_in_def)

subsection \<open>Adding\<close>

lemma length_update_new: "k \<notin> fst ` set d \<Longrightarrow> length (AList.update k v d) = Suc (length d)"
  by (induction d) auto

lemma add_chirality: "chirality (snd (add f m rep c)) = chirality c"
  by (simp add: add_def Let_def)

lemma add_keys:
  "fst ` set (data (snd (add f m rep c))) = insert (f m (chirality c)) (fst ` set (data c))"
  by (auto simp add: add_def Let_def dict_in_def dom_update)

text \<open>
  C8, as stated for any container, fails where the record's key is already there: the
  first \<^verbatim>\<open>add\<close> returns \<^verbatim>\<open>False\<close>.
\<close>

theorem add_present_key_first_call_False:
  "fst (add (\<lambda>mol chir. mol) ''CCO'' False
     \<lparr>data = [(''CCO'', ''CCO'')], sealed = True, chirality = True, index = None\<rparr>) = False"
  by (simp add: add_def dict_in_def Let_def)

text \<open>
  C8, amended. For a record whose key is not in the container, \<^verbatim>\<open>add\<close> without
  \<^verbatim>\<open>replace\<close> returns \<^verbatim>\<open>True\<close>, a second \<^verbatim>\<open>add\<close> of the same record returns
  \<^verbatim>\<open>False\<close>, and the size after the two calls is the size before plus one.
\<close>

theorem add_twice:
  assumes "\<not> dict_in (mol2smi r (chirality c)) (data c)"
  shows "fst (add mol2smi r False c) = True
     \<and> fst (add mol2smi r False (snd (add mol2smi r False c))) = False
     \<and> dunder_len (snd (add mol2smi r False (snd (add mol2smi r False c)))) = dunder_len c + 1"
  using assms
  by (simp add: add_def dunder_len_def keys_def Let_def length_update_new dict_in_def dom_update)

theorem add_twice_witness:
  "\<not> dict_in ((\<lambda>mol chir. mol) ''CO''
        (chirality \<lparr>data = [(''CCO'', ''CCO'')], sealed = True, chirality = True, index = None\<rparr>))
      (data \<lparr>data = [(''CCO'', ''CCO'')], sealed = True, chirality = True, index = None\<rparr>)
   \<and> fst (add (\<lambda>mol chir. mol) ''CO'' False
        \<lparr>data = [(''CCO'', ''CCO'')], sealed = True, chirality = True, index = None\<rparr>) = True
   \<and> dunder_len (snd (add (\<lambda>mol chir. mol) ''CO'' False
        (snd (add (\<lambda>mol chir. mol) ''CO'' False
           \<lparr>data = [(''CCO'', ''CCO'')], sealed = True, chirality = True, index = None\<rparr>)))) = 2"
  using add_twice [of "\<lambda>mol chir. mol" "''CO''"
      "\<lparr>data = [(''CCO'', ''CCO'')], sealed = True, chirality = True, index = None\<rparr>"]
  by (simp add: dict_in_def dunder_len_def keys_def)

subsection \<open>Equality\<close>

text \<open>The keys of a container built from a list are the canonical keys of the list.\<close>

lemma init_loop_keys:
  "fst ` set (data (init_loop f ms c)) = fst ` set (data c) \<union> (\<lambda>m. f m (chirality c)) ` set ms"
proof (induction ms arbitrary: c)
  case Nil
  show ?case by simp
next
  case (Cons m ms)
  have "fst ` set (data ((snd (add f m False c))\<lparr>sealed := False\<rparr>)) =
      insert (f m (chirality c)) (fst ` set (data c))"
    using add_keys [of f m False c] by simp
  moreover have "chirality ((snd (add f m False c))\<lparr>sealed := False\<rparr>) = chirality c"
    by (simp add: add_chirality)
  ultimately show ?case
    using Cons.IH [of "(snd (add f m False c))\<lparr>sealed := False\<rparr>"] by auto
qed

text \<open>
  C9. Two containers are equal exactly when the same keys are members of both. For
  containers built from two lists of records (whatever the order of the lists, the
  records behind the keys and the seals asked for) this is: the two lists have the same
  set of canonical keys.
\<close>

theorem dunder_eq_key_sets:
  "dunder_eq A B = (\<forall>k. dict_in k (data A) = dict_in k (data B))
   \<and> (case (dunder_init mol2smi (ArgList xs) sa ic, dunder_init mol2smi (ArgList ys) sb ic) of
        (Inr X, Inr Y) \<Rightarrow>
          dunder_eq X Y =
            (set (map (\<lambda>m. mol2smi m (\<not> ic)) xs) = set (map (\<lambda>m. mol2smi m (\<not> ic)) ys))
      | _ \<Rightarrow> False)"
proof -
  have "dunder_eq A B = (\<forall>k. dict_in k (data A) = dict_in k (data B))"
    by (auto simp add: dunder_eq_def dict_in_def)
  moreover have
    "(case (dunder_init mol2smi (ArgList xs) sa ic, dunder_init mol2smi (ArgList ys) sb ic) of
        (Inr X, Inr Y) \<Rightarrow>
          dunder_eq X Y =
            (set (map (\<lambda>m. mol2smi m (\<not> ic)) xs) = set (map (\<lambda>m. mol2smi m (\<not> ic)) ys))
      | _ \<Rightarrow> False)"
    by (simp add: dunder_init_def dunder_eq_def init_loop_keys)
  ultimately show ?thesis by simp
qed

subsection \<open>The seal\<close>

lemma list_getitem_Nil:
  "list_getitem [] i =
     Inl (IndexError (if fits_ssize_t i then ''list index out of range''
                      else ''cannot fit 'int' into an index-sized integer''))"
  by (simp add: list_getitem_def)

lemma pop_sealed: "sealed (snd (pop idx c)) = sealed c"
  by (auto simp add: pop_def split: sum.splits error.splits)

lemma pop_empty: "data c = [] \<Longrightarrow> pop idx c = (Inl (IndexError ''Empty container.''), c)"
  by (simp add: pop_def list_getitem_Nil pop_message_def)

lemma pop_raised: "pop idx c = (Inl e, c') \<Longrightarrow> c' = c"
  by (auto simp add: pop_def split: sum.splits error.splits)

text \<open>
  On a container that is unsealed or empty, one call leaves the seal exactly when it did
  not succeed, and a call that did not succeed leaves the whole object as it was.
\<close>

lemma perform_pop:
  assumes "sealed c \<longrightarrow> data c = []"
  shows "sealed (snd (perform f (CallPop idx) c))
       = (sealed c \<and> \<not> succeeded (CallPop idx) (fst (perform f (CallPop idx) c)))
    \<and> (\<not> succeeded (CallPop idx) (fst (perform f (CallPop idx) c))
       \<longrightarrow> snd (perform f (CallPop idx) c) = c)"
proof (cases "data c = []")
  case True
  then show ?thesis using pop_empty [OF True, of idx] by simp
next
  case False
  then have ns: "\<not> sealed c" using assms by simp
  obtain res c' where p: "pop idx c = (res, c')" by (cases "pop idx c")
  have "sealed c' = sealed c" using pop_sealed [of idx c] p by simp
  then show ?thesis using ns p pop_raised [of idx c _ c'] by (cases res) simp_all
qed

lemma perform_step:
  assumes "sealed c \<longrightarrow> data c = []"
  shows "sealed (snd (perform f x c)) = (sealed c \<and> \<not> succeeded x (fst (perform f x c)))
    \<and> (\<not> succeeded x (fst (perform f x c)) \<longrightarrow> snd (perform f x c) = c)"
proof (cases x)
  case (CallPop idx)
  then show ?thesis using perform_pop [OF assms, of f idx] by simp
qed (use assms in \<open>auto simp add: remove_smiles_def remove_mol_def add_def Let_def
      dict_delitem_def dict_in_def split: sum.splits\<close>)

lemma run_sealed:
  "(sealed c \<longrightarrow> data c = []) \<Longrightarrow>
   sealed (snd (run f xs c)) = (sealed c \<and> \<not> fst (run f xs c))
   \<and> (\<not> fst (run f xs c) \<longrightarrow> snd (run f xs c) = c)"
proof (induction xs arbitrary: c)
  case Nil
  show ?case by simp
next
  case (Cons x xs)
  obtain res c' where p: "perform f x c = (res, c')" by (cases "perform f x c")
  have st: "sealed c' = (sealed c \<and> \<not> succeeded x res)" "\<not> succeeded x res \<longrightarrow> c' = c"
    using perform_step [OF Cons.prems, of f x] p by simp_all
  have inv: "sealed c' \<longrightarrow> data c' = []"
    using st Cons.prems by auto
  have "sealed (snd (run f xs c')) = (sealed c' \<and> \<not> fst (run f xs c'))
     \<and> (\<not> fst (run f xs c') \<longrightarrow> snd (run f xs c') = c')"
    using Cons.IH [OF inv] .
  then show ?case using p st by (auto split: prod.splits)
qed

text \<open>On an empty container every call but \<^verbatim>\<open>add\<close> fails and changes nothing.\<close>

lemma perform_quiet:
  assumes "data c = []" and "\<not> is_add x"
  shows "snd (perform f x c) = c \<and> \<not> succeeded x (fst (perform f x c))"
proof (cases x)
  case (CallPop idx)
  then show ?thesis using pop_empty [OF assms(1), of idx] by simp
next
  case (CallAdd mol replace)
  then show ?thesis using assms(2) by simp
qed (use assms in \<open>simp_all add: remove_smiles_def remove_mol_def dict_delitem_def dict_in_def\<close>)

lemma run_quiet:
  "data c = [] \<Longrightarrow> \<forall>x\<in>set xs. \<not> is_add x \<Longrightarrow> run f xs c = (False, c)"
proof (induction xs)
  case Nil
  show ?case by simp
next
  case (Cons x xs)
  then have "snd (perform f x c) = c" "\<not> succeeded x (fst (perform f x c))"
    using perform_quiet [of c x f] by simp_all
  moreover have "run f xs c = (False, c)" using Cons by simp
  ultimately show ?case by (simp add: case_prod_unfold)
qed

lemma run_append:
  "run f (xs @ ys) c =
     (case run f xs c of (a, c') \<Rightarrow> (case run f ys c' of (b, c'') \<Rightarrow> (a \<or> b, c'')))"
  by (induction xs arbitrary: c) (auto split: prod.splits)

text \<open>
  C7. Let \<open>fresh\<close> be the empty container constructed with \<^verbatim>\<open>sealed=True\<close>, and
  \<open>quiet\<close> any sequence of \<^verbatim>\<open>get\<close>, membership, \<^verbatim>\<open>remove_smiles\<close>, \<^verbatim>\<open>remove_mol\<close>
  and \<^verbatim>\<open>pop\<close> calls. Then \<open>fresh\<close> is sealed; after \<open>quiet\<close> no call has succeeded and
  the container is \<open>fresh\<close> still; an \<^verbatim>\<open>add\<close> after \<open>quiet\<close> succeeds, stores the molecule
  under its key and breaks the seal, and no call of a sequence \<open>later\<close> after it restores
  the seal. On any container \<open>c\<close>, sealed or not (the owner may have sealed it again),
  \<^verbatim>\<open>remove_smiles\<close> and \<^verbatim>\<open>remove_mol\<close> of a key that is present return \<^verbatim>\<open>True\<close>, drop
  the entry and break the seal, and of a key that is absent return \<^verbatim>\<open>False\<close> and change
  nothing; \<^verbatim>\<open>add\<close> of a key that is present, without \<^verbatim>\<open>replace\<close>, returns \<^verbatim>\<open>False\<close>
  and changes nothing, and any other \<^verbatim>\<open>add\<close> returns \<^verbatim>\<open>True\<close>, stores the molecule and
  breaks the seal.
\<close>

theorem fresh_container_seal:
  assumes "dunder_init mol2smi ArgNone True ic = Inr fresh"
    and "\<forall>x\<in>set quiet. \<not> is_add x"
  shows "sealed fresh \<and> data fresh = []
    \<and> run mol2smi quiet fresh = (False, fresh)
    \<and> run mol2smi (quiet @ [CallAdd mol replace]) fresh
        = (True, fresh\<lparr>data := [(mol2smi mol (chirality fresh), mol)], sealed := False\<rparr>)
    \<and> sealed (snd (run mol2smi (quiet @ CallAdd mol replace # later) fresh)) = False
    \<and> remove_smiles smiles c
        = (if dict_in smiles (data c)
           then (True, c\<lparr>data := AList.delete smiles (data c), sealed := False\<rparr>)
           else (False, c))
    \<and> remove_mol mol2smi m c
        = (if dict_in (mol2smi m (chirality c)) (data c)
           then (True, c\<lparr>data := AList.delete (mol2smi m (chirality c)) (data c), sealed := False\<rparr>)
           else (False, c))
    \<and> add mol2smi m rep c
        = (if dict_in (mol2smi m (chirality c)) (data c) \<and> \<not> rep then (False, c)
           else (True, c\<lparr>data := AList.update (mol2smi m (chirality c)) m (data c),
                          sealed := False\<rparr>))"
proof -
  let ?c1 = "fresh\<lparr>data := [(mol2smi mol (chirality fresh), mol)], sealed := False\<rparr>"
  have f: "fresh = \<lparr>data = [], sealed = True, chirality = \<not> ic, index = None\<rparr>"
    using assms(1) by (simp add: dunder_init_def)
  then have e: "sealed fresh" "data fresh = []" by simp_all
  have q: "run mol2smi quiet fresh = (False, fresh)"
    using run_quiet [OF e(2) assms(2)] .
  have a: "add mol2smi mol replace fresh = (True, ?c1)"
    using e(2) by (simp add: add_def Let_def dict_in_def)
  have one: "run mol2smi (quiet @ [CallAdd mol replace]) fresh = (True, ?c1)"
    by (simp add: run_append q a)
  have "run mol2smi (quiet @ CallAdd mol replace # later) fresh
      = (True, snd (run mol2smi later ?c1))"
    by (simp add: run_append q a case_prod_unfold)
  moreover have "sealed (snd (run mol2smi later ?c1)) = False"
    using run_sealed [of ?c1 mol2smi later] by simp
  ultimately have two: "sealed (snd (run mol2smi (quiet @ CallAdd mol replace # later) fresh)) = False"
    by simp
  have rs: "remove_smiles k c
        = (if dict_in k (data c)
           then (True, c\<lparr>data := AList.delete k (data c), sealed := False\<rparr>)
           else (False, c))" for k
    by (simp add: remove_smiles_def dict_delitem_def)
  have ad: "add mol2smi m rep c
        = (if dict_in (mol2smi m (chirality c)) (data c) \<and> \<not> rep then (False, c)
           else (True, c\<lparr>data := AList.update (mol2smi m (chirality c)) m (data c),
                          sealed := False\<rparr>))"
    by (simp add: add_def Let_def)
  show ?thesis
    using e q one two rs [of smiles] rs [of "mol2smi m (chirality c)"] ad
    by (simp add: remove_mol_def)
qed

text \<open>
  On the empty sealed container: a \<^verbatim>\<open>get\<close>, a membership test, two removals and a
  \<^verbatim>\<open>pop\<close> leave it sealed, and the \<^verbatim>\<open>add\<close> after them breaks the seal. On a
  container of one molecule that its owner has sealed again: the removal of the
  molecule breaks the seal, the removal of another does not.
\<close>

theorem fresh_container_seal_witness:
  "dunder_init (\<lambda>mol chir. mol) ArgNone True False
     = Inr \<lparr>data = [], sealed = True, chirality = True, index = None\<rparr>
   \<and> run (\<lambda>mol chir. mol)
       [CallGet (KStr ''CCO'') None, CallContains ''CCO'', CallRemoveSmiles ''CCO'',
        CallRemoveMol ''CO'', CallPop 0]
       \<lparr>data = [], sealed = True, chirality = True, index = None\<rparr>
     = (False, \<lparr>data = [], sealed = True, chirality = True, index = None\<rparr>)
   \<and> run (\<lambda>mol chir. mol)
       ([CallGet (KStr ''CCO'') None, CallContains ''CCO'', CallRemoveSmiles ''CCO'',
         CallRemoveMol ''CO'', CallPop 0] @ [CallAdd ''CCO'' False])
       \<lparr>data = [], sealed = True, chirality = True, index = None\<rparr>
     = (True, \<lparr>data = [(''CCO'', ''CCO'')], sealed = False, chirality = True, index = None\<rparr>)
   \<and> remove_smiles ''CCO''
       \<lparr>data = [(''CCO'', ''CCO'')], sealed = True, chirality = True, index = None\<rparr>
     = (True, \<lparr>data = [], sealed = False, chirality = True, index = None\<rparr>)
   \<and> remove_mol (\<lambda>mol chir. mol) ''CO''
       \<lparr>data = [(''CCO'', ''CCO'')], sealed = True, chirality = True, index = None\<rparr>
     = (False, \<lparr>data = [(''CCO'', ''CCO'')], sealed = True, chirality = True, index = None\<rparr>)"
  using fresh_container_seal [of "\<lambda>mol chir. mol" False
      "\<lparr>data = [], sealed = True, chirality = True, index = None\<rparr>"
      "[CallGet (KStr ''CCO'') None, CallContains ''CCO'', CallRemoveSmiles ''CCO'',
        CallRemoveMol ''CO'', CallPop 0]"
      "''CCO''" False "[]" "''CCO''"
      "\<lparr>data = [(''CCO'', ''CCO'')], sealed = True, chirality = True, index = None\<rparr>" "''CO''" False]
  by (simp add: dunder_init_def dict_in_def)

subsection \<open>Removal by position\<close>

lemma list_getitem_out:
  "\<not> (- int (length xs) \<le> i \<and> i < int (length xs)) \<Longrightarrow>
   list_getitem xs i =
     Inl (IndexError (if fits_ssize_t i then ''list index out of range''
                      else ''cannot fit 'int' into an index-sized integer''))"
  by (auto simp add: list_getitem_def)

lemma list_getitem_in:
  "- int (length xs) \<le> i \<Longrightarrow> i < int (length xs) \<Longrightarrow>
   list_getitem xs i = Inr (xs ! nat (if i < 0 then int (length xs) + i else i))"
  by (auto simp add: list_getitem_def)

lemma keys_at_out:
  "\<exists>i\<in>set is. \<not> (- int (length ks) \<le> i \<and> i < int (length ks)) \<Longrightarrow>
   \<exists>msg. keys_at ks is = Inl (IndexError msg)
     \<and> (msg = ''list index out of range''
        \<or> msg = ''cannot fit 'int' into an index-sized integer'')"
proof (induction "is")
  case Nil
  then show ?case by simp
next
  case (Cons i rest)
  show ?case
  proof (cases "- int (length ks) \<le> i \<and> i < int (length ks)")
    case True
    then have "\<exists>i\<in>set rest. \<not> (- int (length ks) \<le> i \<and> i < int (length ks))"
      using Cons.prems by auto
    then obtain msg where "keys_at ks rest = Inl (IndexError msg)"
      "msg = ''list index out of range''
        \<or> msg = ''cannot fit 'int' into an index-sized integer''"
      using Cons.IH by blast
    then show ?thesis using True by (simp add: list_getitem_in)
  next
    case False
    then show ?thesis using list_getitem_out [of ks i] by simp
  qed
qed

lemma keys_at_in:
  "\<forall>i\<in>set is. - int (length ks) \<le> i \<and> i < int (length ks) \<Longrightarrow>
   keys_at ks is = Inr (map (\<lambda>i. ks ! nat (if i < 0 then int (length ks) + i else i)) is)"
  by (induction "is") (simp_all add: list_getitem_in)

lemma remove_smiles_data: "data (snd (remove_smiles k c)) = AList.delete k (data c)"
  by (auto simp add: remove_smiles_def dict_delitem_def dict_in_def)

lemma remove_smiles_sealed: "sealed (snd (remove_smiles k c)) = (sealed c \<and> \<not> dict_in k (data c))"
  by (simp add: remove_smiles_def dict_delitem_def)

lemma remove_smiles_more: "chirality (snd (remove_smiles k c)) = chirality c \<and> index (snd (remove_smiles k c)) = index c"
  by (simp add: remove_smiles_def dict_delitem_def)

lemma remove_each_effect:
  "remove_each ks c =
     c\<lparr>data := filter (\<lambda>p. fst p \<notin> set ks) (data c),
       sealed := (sealed c \<and> \<not> (\<exists>k\<in>set ks. dict_in k (data c)))\<rparr>"
proof (induction ks arbitrary: c)
  case Nil
  show ?case by simp
next
  case (Cons k ks)
  let ?c1 = "snd (remove_smiles k c)"
  have d: "data ?c1 = filter (\<lambda>p. fst p \<noteq> k) (data c)"
    by (auto simp add: remove_smiles_data AList.delete_eq case_prod_unfold intro: filter_cong)
  have s: "sealed ?c1 = (sealed c \<and> \<not> dict_in k (data c))" by (rule remove_smiles_sealed)
  have eqc: "?c1 = c\<lparr>data := filter (\<lambda>p. fst p \<noteq> k) (data c), sealed := (sealed c \<and> \<not> dict_in k (data c))\<rparr>"
    using d s remove_smiles_more [of k c] by (intro container.equality) simp_all
  have f: "filter (\<lambda>p. fst p \<notin> set ks) (filter (\<lambda>p. fst p \<noteq> k) (data c)) = filter (\<lambda>p. fst p \<notin> set (k # ks)) (data c)"
    by (induction "data c") (auto intro: filter_cong)
  have e: "(\<exists>k'\<in>set ks. dict_in k' (filter (\<lambda>p. fst p \<noteq> k) (data c))) = (\<exists>k'\<in>set ks. k' \<noteq> k \<and> dict_in k' (data c))"
    by (auto simp add: dict_in_def)
  have b: "(sealed ?c1 \<and> \<not> (\<exists>k'\<in>set ks. dict_in k' (data ?c1)))
      = (sealed c \<and> \<not> (\<exists>k'\<in>set (k # ks). dict_in k' (data c)))"
    unfolding d s e by auto
  have dd: "filter (\<lambda>p. fst p \<notin> set ks) (data ?c1) = filter (\<lambda>p. fst p \<notin> set (k # ks)) (data c)"
    unfolding d by (rule f)
  have "remove_each (k # ks) c = remove_each ks ?c1" by simp
  also have "\<dots> = ?c1\<lparr>data := filter (\<lambda>p. fst p \<notin> set ks) (data ?c1),
       sealed := (sealed ?c1 \<and> \<not> (\<exists>k\<in>set ks. dict_in k (data ?c1)))\<rparr>"
    by (rule Cons.IH)
  also have "\<dots> = ?c1\<lparr>data := filter (\<lambda>p. fst p \<notin> set (k # ks)) (data c),
       sealed := (sealed c \<and> \<not> (\<exists>k\<in>set (k # ks). dict_in k (data c)))\<rparr>"
    unfolding dd b ..
  also have "\<dots> = c\<lparr>data := filter (\<lambda>p. fst p \<notin> set (k # ks)) (data c),
       sealed := (sealed c \<and> \<not> (\<exists>k\<in>set (k # ks). dict_in k (data c)))\<rparr>"
    by (subst eqc) simp
  finally show ?case .
qed


lemma position_less: "- int n \<le> i \<Longrightarrow> i < int n \<Longrightarrow> position n i < n"
  by (auto simp add: position_def)

text \<open>
  C5, as stated with the range \<open>[0, size)\<close>, fails at a negative index: on a container
  of one molecule the index \<open>-1\<close> raises nothing and removes the molecule.
\<close>

theorem remove_from_indices_negative_index:
  "remove_from_indices [- 1]
     \<lparr>data = [(''CCO'', ''ethanol'')], sealed = True, chirality = True, index = None\<rparr>
   = (Inr [''CCO''], \<lparr>data = [], sealed = False, chirality = True, index = None\<rparr>)"
  by (simp add: remove_from_indices_def list_getitem_def remove_smiles_def dict_delitem_def
      dict_in_def)

text \<open>
  C5, amended. With \<open>n\<close> the size of the container: if some index of the list lies
  outside \<open>[-n, n)\<close>, \<^verbatim>\<open>remove_from_indices\<close> raises \<^verbatim>\<open>IndexError\<close> (with one of the
  interpreter's two messages) and the container is as before the call; if all lie
  inside, it returns the keys at the listed positions of the key order at call time
  (\<open>i < 0\<close> denoting position \<open>n + i\<close>), in the order of the list, the entries left are
  those under the other keys, and the seal is broken unless the list is empty.
\<close>

theorem remove_from_indices_all_or_nothing:
  "((\<exists>i\<in>set indices. i < - int (dunder_len c) \<or> int (dunder_len c) \<le> i) \<longrightarrow>
      (\<exists>msg. remove_from_indices indices c = (Inl (IndexError msg), c)
         \<and> (msg = ''list index out of range''
            \<or> msg = ''cannot fit 'int' into an index-sized integer'')))
   \<and> ((\<forall>i\<in>set indices. - int (dunder_len c) \<le> i \<and> i < int (dunder_len c)) \<longrightarrow>
      remove_from_indices indices c =
        (Inr (map (\<lambda>i. keys c ! position (dunder_len c) i) indices),
         c\<lparr>data := filter (\<lambda>p. fst p \<notin> set (map (\<lambda>i. keys c ! position (dunder_len c) i) indices)) (data c),
           sealed := (sealed c \<and> indices = [])\<rparr>))"
proof (intro conjI impI)
  assume "\<exists>i\<in>set indices. i < - int (dunder_len c) \<or> int (dunder_len c) \<le> i"
  then obtain i where "i \<in> set indices" "i < - int (dunder_len c) \<or> int (dunder_len c) \<le> i"
    by blast
  then have "i \<in> set indices"
      "\<not> (- int (length (map fst (data c))) \<le> i \<and> i < int (length (map fst (data c))))"
    by (auto simp add: dunder_len_def keys_def)
  then have "\<exists>i\<in>set indices. \<not> (- int (length (map fst (data c))) \<le> i \<and> i < int (length (map fst (data c))))"
    by (rule bexI [rotated])
  then obtain msg where "keys_at (map fst (data c)) indices = Inl (IndexError msg)"
    and m: "msg = ''list index out of range''
        \<or> msg = ''cannot fit 'int' into an index-sized integer''"
    using keys_at_out [of indices "map fst (data c)"] by blast
  then have "remove_from_indices indices c = (Inl (IndexError msg), c)"
    by (simp add: remove_from_indices_def)
  then show "\<exists>msg. remove_from_indices indices c = (Inl (IndexError msg), c)
         \<and> (msg = ''list index out of range''
            \<or> msg = ''cannot fit 'int' into an index-sized integer'')"
    using m by blast
next
  let ?ks = "map fst (data c)"
  let ?rm = "map (\<lambda>i. keys c ! position (dunder_len c) i) indices"
  assume a: "\<forall>i\<in>set indices. - int (dunder_len c) \<le> i \<and> i < int (dunder_len c)"
  then have "\<forall>i\<in>set indices. - int (length ?ks) \<le> i \<and> i < int (length ?ks)"
    by (simp add: dunder_len_def keys_def)
  then have "keys_at ?ks indices = Inr (map (\<lambda>i. ?ks ! nat (if i < 0 then int (length ?ks) + i else i)) indices)"
    by (rule keys_at_in)
  then have k: "keys_at ?ks indices = Inr ?rm"
    by (simp add: dunder_len_def keys_def position_def)
  have mem: "\<forall>k\<in>set ?rm. dict_in k (data c)"
  proof
    fix k assume "k \<in> set ?rm"
    then obtain i where i: "i \<in> set indices" "k = keys c ! position (dunder_len c) i" by auto
    then have "position (dunder_len c) i < length (keys c)"
      using a position_less [of "dunder_len c" i] by (simp add: dunder_len_def)
    then have "k \<in> set (keys c)" using i(2) by simp
    then show "dict_in k (data c)" by (simp add: dict_in_def keys_def)
  qed
  have "(\<exists>k\<in>set ?rm. dict_in k (data c)) = (indices \<noteq> [])"
  proof (cases indices)
    case Nil
    then show ?thesis by simp
  next
    case (Cons i rest)
    then have "keys c ! position (dunder_len c) i \<in> set ?rm" by simp
    then show ?thesis using mem Cons by blast
  qed
  then have "remove_each ?rm c = c\<lparr>data := filter (\<lambda>p. fst p \<notin> set ?rm) (data c), sealed := (sealed c \<and> indices = [])\<rparr>"
    unfolding remove_each_effect by simp
  then show "remove_from_indices indices c = (Inr ?rm, c\<lparr>data := filter (\<lambda>p. fst p \<notin> set ?rm) (data c), sealed := (sealed c \<and> indices = [])\<rparr>)"
    using k by (simp add: remove_from_indices_def)
qed

text \<open>
  Three keys and the index \<open>5\<close>; three keys and an index beyond the index type after
  a good one; four keys and the indices \<open>0\<close> and \<open>2\<close>.
\<close>

theorem remove_from_indices_all_or_nothing_witness:
  "remove_from_indices [5]
     \<lparr>data = [(''k0'', ''a''), (''k1'', ''b''), (''k2'', ''c'')], sealed = True, chirality = True, index = None\<rparr>
   = (Inl (IndexError ''list index out of range''),
      \<lparr>data = [(''k0'', ''a''), (''k1'', ''b''), (''k2'', ''c'')], sealed = True, chirality = True, index = None\<rparr>)
   \<and> remove_from_indices [0, - 9223372036854775809]
     \<lparr>data = [(''k0'', ''a''), (''k1'', ''b''), (''k2'', ''c'')], sealed = True, chirality = True, index = None\<rparr>
   = (Inl (IndexError ''cannot fit 'int' into an index-sized integer''),
      \<lparr>data = [(''k0'', ''a''), (''k1'', ''b''), (''k2'', ''c'')], sealed = True, chirality = True, index = None\<rparr>)
   \<and> remove_from_indices [0, 2]
     \<lparr>data = [(''k0'', ''a''), (''k1'', ''b''), (''k2'', ''c''), (''k3'', ''d'')], sealed = True, chirality = True, index = None\<rparr>
   = (Inr [''k0'', ''k2''],
      \<lparr>data = [(''k1'', ''b''), (''k3'', ''d'')], sealed = False, chirality = True, index = None\<rparr>)"
  using remove_from_indices_all_or_nothing [of "[5]" "\<lparr>data = [(''k0'', ''a''), (''k1'', ''b''), (''k2'', ''c'')], sealed = True, chirality = True, index = None\<rparr>"]
    remove_from_indices_all_or_nothing [of "[0, 2]" "\<lparr>data = [(''k0'', ''a''), (''k1'', ''b''), (''k2'', ''c''), (''k3'', ''d'')], sealed = True, chirality = True, index = None\<rparr>"]
  by (simp add: dunder_len_def keys_def position_def remove_from_indices_def list_getitem_def
      fits_ssize_t_def)

subsection \<open>Index errors\<close>






subsection \<open>Copies\<close>

lemma dunder_init_container:
  "dunder_init mol2smi (ArgContainer other) sld ic =
     Inr \<lparr>data = data other, sealed = sld, chirality = \<not> ic, index = None\<rparr>"
  by (simp add: dunder_init_def)

lemma copy_is_constructor: "dunder_init mol2smi (ArgContainer self) True False = Inr (copy self)"
  by (simp add: dunder_init_def copy_def from_container_def)

text \<open>The copy has the entries of the source, and the mode of the constructor's default.\<close>

lemma copy_data: "data (copy self) = data self"
  by (simp add: copy_def from_container_def)

lemma copy_chirality: "chirality (copy self) = True"
  by (simp add: copy_def from_container_def)

text \<open>
  C4. The copy of a container is to have the chirality mode of its source and to compute
  its keys in that mode. Take a canonicaliser that drops the stereo marks \<^verbatim>\<open>@\<close> when
  chirality is ignored, and the container built from one molecule with
  \<^verbatim>\<open>ignore_chirality=True\<close>: it holds the molecule under the key without marks, finds
  it, and refuses to add it again. Its \<^verbatim>\<open>copy()\<close> has the same entry but keeps
  chirality: it does not find the molecule it holds, cannot remove it, and \<^verbatim>\<open>add\<close>
  stores it a second time under the key with marks.
\<close>

theorem copy_chirality_not_inherited:
  "dunder_init (\<lambda>mol chir. if chir then mol else filter (\<lambda>x. x \<noteq> CHR ''@'') mol)
       (ArgList [''C[C@H](N)O'']) True True
     = Inr \<lparr>data = [(''C[CH](N)O'', ''C[C@H](N)O'')], sealed = False, chirality = False,
            index = None\<rparr>
   \<and> dunder_contains (\<lambda>mol chir. if chir then mol else filter (\<lambda>x. x \<noteq> CHR ''@'') mol)
       ''C[C@H](N)O''
       \<lparr>data = [(''C[CH](N)O'', ''C[C@H](N)O'')], sealed = False, chirality = False,
          index = None\<rparr> = True
   \<and> fst (add (\<lambda>mol chir. if chir then mol else filter (\<lambda>x. x \<noteq> CHR ''@'') mol)
       ''C[C@H](N)O'' False
       \<lparr>data = [(''C[CH](N)O'', ''C[C@H](N)O'')], sealed = False, chirality = False,
          index = None\<rparr>) = False
   \<and> copy \<lparr>data = [(''C[CH](N)O'', ''C[C@H](N)O'')], sealed = False, chirality = False,
          index = None\<rparr>
     = \<lparr>data = [(''C[CH](N)O'', ''C[C@H](N)O'')], sealed = True, chirality = True,
          index = None\<rparr>
   \<and> dunder_contains (\<lambda>mol chir. if chir then mol else filter (\<lambda>x. x \<noteq> CHR ''@'') mol)
       ''C[C@H](N)O''
       (copy \<lparr>data = [(''C[CH](N)O'', ''C[C@H](N)O'')], sealed = False, chirality = False,
          index = None\<rparr>) = False
   \<and> fst (remove_mol (\<lambda>mol chir. if chir then mol else filter (\<lambda>x. x \<noteq> CHR ''@'') mol)
       ''C[C@H](N)O''
       (copy \<lparr>data = [(''C[CH](N)O'', ''C[C@H](N)O'')], sealed = False, chirality = False,
          index = None\<rparr>)) = False
   \<and> add (\<lambda>mol chir. if chir then mol else filter (\<lambda>x. x \<noteq> CHR ''@'') mol)
       ''C[C@H](N)O'' False
       (copy \<lparr>data = [(''C[CH](N)O'', ''C[C@H](N)O'')], sealed = False, chirality = False,
          index = None\<rparr>)
     = (True, \<lparr>data = [(''C[CH](N)O'', ''C[C@H](N)O''), (''C[C@H](N)O'', ''C[C@H](N)O'')],
                sealed = False, chirality = True, index = None\<rparr>)"
  by (simp add: dunder_init_def copy_def from_container_def dunder_contains_def dict_in_def
      add_def Let_def remove_mol_def remove_smiles_def dict_delitem_def)

subsection \<open>Iterators\<close>

text \<open>
  C10. \<^verbatim>\<open>iter(r)\<close> returns \<^verbatim>\<open>r\<close> itself and changes nothing of the object but its
  counter, which it sets to \<open>-1\<close>. Whatever the counter was before (an iteration may be
  in progress), the next \<^verbatim>\<open>__next__\<close> through the reference returned, which is every
  iterator of \<^verbatim>\<open>r\<close>, starts over: it yields the first molecule again and leaves the
  counter at \<open>0\<close>, or stops at once when the container is empty.
\<close>

theorem iter_returns_self_and_resets:
  assumes "r < length h"
  shows "fst (heap_iter r h) = r
    \<and> snd (heap_iter r h) = h[r := (h ! r)\<lparr>index := Some (- 1)\<rparr>]
    \<and> (case data (h ! r) of
          [] \<Rightarrow>
            fst (call (fst (heap_iter r h)) dunder_next (snd (heap_iter r h))) = Inl StopIteration
        | (k, mol) # rest \<Rightarrow>
            fst (call (fst (heap_iter r h)) dunder_next (snd (heap_iter r h))) = Inr mol
            \<and> index (snd (call (fst (heap_iter r h)) dunder_next (snd (heap_iter r h))) ! r)
              = Some 0)"
  using assms
  by (simp add: heap_iter_def dunder_iter_def call_def dunder_next_def list_getitem_def
      dict_getitem_def split: prod.splits list.splits)

text \<open>
  A loop over two molecules has yielded the first (the counter is \<open>0\<close>). A second
  \<^verbatim>\<open>iter\<close> on the same container makes its next step yield the first molecule
  again, where the undisturbed loop yields the second; and once the second iteration
  has run to its end (the counter is \<open>2\<close>), the first loop stops as well.
\<close>

theorem iter_returns_self_and_resets_witness:
  "fst (call 0 dunder_next (snd (heap_iter 0
      [\<lparr>data = [(''CCO'', ''ethanol''), (''CO'', ''methanol'')], sealed = False,
         chirality = True, index = Some 0\<rparr>]))) = Inr ''ethanol''
   \<and> fst (call 0 dunder_next
      [\<lparr>data = [(''CCO'', ''ethanol''), (''CO'', ''methanol'')], sealed = False,
         chirality = True, index = Some 0\<rparr>]) = Inr ''methanol''
   \<and> fst (call 0 dunder_next
      [\<lparr>data = [(''CCO'', ''ethanol''), (''CO'', ''methanol'')], sealed = False,
         chirality = True, index = Some 2\<rparr>]) = Inl StopIteration"
  using iter_returns_self_and_resets [of 0
      "[\<lparr>data = [(''CCO'', ''ethanol''), (''CO'', ''methanol'')], sealed = False,
          chirality = True, index = Some 0\<rparr>]"]
  by (simp add: call_def dunder_next_def list_getitem_def dict_getitem_def)

end
